theory Spec2Isabelle
  imports Complex_Main "HOL-Library.Sublist" "HOL-Library.Char_ord" "HOL-Library.List_Lexorder"
begin

section \<open>Graph construction of venn-demo: \<open>src/utils/chartOptions.js\<close>\<close>

text \<open>
  The embedding follows \<open>chartOptions.js\<close> function by function. JavaScript numbers are
  modelled as \<open>int\<close> where the code counts tables and connections and as \<open>real\<close> where it
  computes sizes, widths, opacities and coordinates (\<open>Math.log\<close> is \<open>ln\<close>, IEEE rounding is
  not modelled). Strings are \<open>string\<close>; \<open>toLowerCase\<close> is modelled on the ASCII letters.
  A field that is absent, \<open>undefined\<close> or \<open>null\<close> is \<open>None\<close>. The two entity lists are
  always arrays here: the guard at the head of both builders, which returns the empty graph
  when a list is missing, has no branch in the embedding.
\<close>

subsection \<open>Strings and defaults\<close>

definition toLowerCase_char :: "char \<Rightarrow> char" where
  "toLowerCase_char c =
     (let n = (of_char c :: nat) in if 65 \<le> n \<and> n \<le> 90 then char_of (n + 32) else c)"

definition toLowerCase :: "string \<Rightarrow> string" where
  "toLowerCase s = map toLowerCase_char s"

text \<open>\<open>name.includes(sub)\<close>: \<open>sub\<close> occurs in \<open>name\<close> as a contiguous run.\<close>

definition str_includes :: "string \<Rightarrow> string \<Rightarrow> bool" where
  "str_includes name sub = sublist sub name"

text \<open>\<open>s || d\<close> on a string field: absent and the empty string are both falsy.\<close>

definition str_or :: "string option \<Rightarrow> string \<Rightarrow> string" where
  "str_or s d = (case s of None \<Rightarrow> d | Some v \<Rightarrow> if v = [] then d else v)"

text \<open>\<open>n || 0\<close> on a number field: absent and \<open>0\<close> are both falsy.\<close>

definition num_or0 :: "int option \<Rightarrow> int" where
  "num_or0 n = (case n of None \<Rightarrow> 0 | Some v \<Rightarrow> v)"

subsection \<open>Symbol size and positions\<close>

text \<open>
  \<^verbatim>\<open>
  const calculateSymbolSize = (value) => {
    if (value <= 0) return 20;
    return Math.min(100, Math.max(20, Math.log(value) * 8));
  };
  \<close>
\<close>

definition calculateSymbolSize :: "real \<Rightarrow> real" where
  "calculateSymbolSize v = (if v \<le> 0 then 20 else min 100 (max 20 (ln v * 8)))"

record position =
  pos_x :: real
  pos_y :: real

definition getCircularPosition :: "nat \<Rightarrow> nat \<Rightarrow> real \<Rightarrow> real \<Rightarrow> real \<Rightarrow> position" where
  "getCircularPosition index n_total radius centerX centerY =
     (let angle = (real index / real n_total) * 2 * pi + pi / real n_total
      in \<lparr>pos_x = centerX + radius * cos angle, pos_y = centerY + radius * sin angle\<rparr>)"

definition getSectorPosition ::
  "nat \<Rightarrow> nat \<Rightarrow> real \<Rightarrow> real \<Rightarrow> real \<Rightarrow> real \<Rightarrow> real \<Rightarrow> position" where
  "getSectorPosition index n_total radius centerX centerY startAngle endAngle =
     (let angle = startAngle + (real index / real (max n_total 1)) * (endAngle - startAngle)
      in \<lparr>pos_x = centerX + radius * cos angle, pos_y = centerY + radius * sin angle\<rparr>)"

text \<open>\<open>Math.atan2(y, x)\<close>, the angle of the point \<open>(x, y)\<close> in \<open>(-\<pi>, \<pi>]\<close>.\<close>

definition atan2 :: "real \<Rightarrow> real \<Rightarrow> real" where
  "atan2 y x =
     (if 0 < x then arctan (y / x)
      else if x < 0 \<and> 0 \<le> y then arctan (y / x) + pi
      else if x < 0 then arctan (y / x) - pi
      else if 0 < y then pi / 2
      else if y < 0 then - (pi / 2)
      else 0)"

subsection \<open>Data model\<close>

text \<open>
  An input record is a JavaScript object; the builders read five of its fields. A source
  record carries \<open>source_application_name\<close> and \<open>source_table_count\<close>, a downstream
  record \<open>downstream_application_name\<close> and \<open>share_to_downstream_table_count\<close>; both
  carry \<open>data_platform\<close>. A field is \<open>None\<close> when the object lacks it or holds \<open>null\<close>.
\<close>

record row =
  data_platform :: "string option"
  source_application_name :: "string option"
  source_table_count :: "int option"
  downstream_application_name :: "string option"
  share_to_downstream_table_count :: "int option"

datatype node_type = Dataplatform | Source | Downstream | Mixed

text \<open>
  A node object. \<open>tables\<close> is \<open>None\<close> when the field holds no number: platform nodes are
  created without it, and \<open>+=\<close> on the missing field leaves \<open>NaN\<close>. \<open>isMixed\<close> is
  \<open>False\<close> on platform nodes, which lack the field. The \<open>itemStyle\<close> object is flattened:
  its \<open>color\<close> is set by the builders, its border and opacity only by \<open>getChartOptions\<close>.
  The constant \<open>symbol\<close> and \<open>label\<close> objects are left out.
\<close>

record node =
  node_id :: string
  node_name :: string
  tables :: "int option"
  node_type :: node_type
  dataPlatform :: "string option"
  isMixed :: bool
  node_x :: real
  node_y :: real
  symbolSize :: real
  itemStyle_color :: string
  itemStyle_borderWidth :: "real option"
  itemStyle_borderColor :: "string option"
  itemStyle_opacity :: "real option"

text \<open>
  A link end is a node id, or an already resolved node object (of which only the id is
  read), or \<open>null\<close>. The builders below only produce ids.
\<close>

datatype endpoint = NodeId string | NodeObj string | Null

datatype line_type = Solid | Dashed

record lineStyle =
  ls_color :: string
  ls_width :: real
  ls_type :: line_type
  ls_opacity :: real
  ls_curveness :: real

record link =
  link_source :: endpoint
  link_target :: endpoint
  link_value :: int
  link_lineStyle :: "lineStyle option"

record graph =
  nodes :: "node list"
  links :: "link list"

type_synonym colorMap = "string \<Rightarrow> string option"

text \<open>
  \<open>nodeMap\<close> and the \<open>nodes\<close> array hold the same objects: every \<open>nodes.push(n)\<close> is
  paired with \<open>nodeMap.set(n.id, n)\<close>, and happens only for an id that \<open>nodeMap\<close> does not
  hold yet. So \<open>nodeMap.has(k)\<close> is a search of \<open>nodes\<close> by id, and a mutation of
  \<open>nodeMap.get(k)\<close> is a mutation of that element of \<open>nodes\<close>.
\<close>

definition nodeMap_has :: "node list \<Rightarrow> string \<Rightarrow> bool" where
  "nodeMap_has ns k = (k \<in> set (map node_id ns))"

definition nodeMap_update :: "(node \<Rightarrow> node) \<Rightarrow> string \<Rightarrow> node list \<Rightarrow> node list" where
  "nodeMap_update f k ns = map (\<lambda>n. if node_id n = k then f n else n) ns"

text \<open>\<open>existingNode.tables += count\<close>\<close>

definition add_tables :: "int \<Rightarrow> node \<Rightarrow> node" where
  "add_tables c n = n\<lparr>tables := map_option (\<lambda>t. t + c) (tables n)\<rparr>"

text \<open>A JavaScript \<open>Set\<close> of strings in insertion order.\<close>

definition set_add :: "string list \<Rightarrow> string \<Rightarrow> string list" where
  "set_add s v = (if v \<in> set s then s else s @ [v])"

text \<open>\<open>row?.['data_platform'] || 'Unknown'\<close>, then \<open>.toLowerCase()\<close>: the key added to
  \<open>dataplatformSet\<close>.\<close>

definition platform_set_key :: "row \<Rightarrow> string" where
  "platform_set_key r = toLowerCase (str_or (data_platform r) ''Unknown'')"

definition collect_platforms :: "row list \<Rightarrow> row list \<Rightarrow> string list" where
  "collect_platforms sourceEntityList downstreamEntityList =
     foldl (\<lambda>s r. set_add s (platform_set_key r))
       (foldl (\<lambda>s r. set_add s (platform_set_key r)) [] sourceEntityList)
       downstreamEntityList"

text \<open>\<open>row?.["data_platform"]?.toLowerCase() || "Unknown"\<close>: the key under which a record
  looks its platform up. The default is not lower-cased here.\<close>

definition platform_key :: "row \<Rightarrow> string" where
  "platform_key r = str_or (map_option toLowerCase (data_platform r)) ''Unknown''"

text \<open>\<open>[...list].sort((a, b) => (b.count || 0) - (a.count || 0))\<close>: stable, descending.\<close>

definition sort_sources :: "row list \<Rightarrow> row list" where
  "sort_sources rs = sort_key (\<lambda>r. - num_or0 (source_table_count r)) rs"

definition sort_downstreams :: "row list \<Rightarrow> row list" where
  "sort_downstreams rs = sort_key (\<lambda>r. - num_or0 (share_to_downstream_table_count r)) rs"

text \<open>\<open>[a, b].sort().join('-')\<close>: the default sort compares the two strings code unit by
  code unit, here character by character.\<close>

definition connectionKey :: "string \<Rightarrow> string \<Rightarrow> string" where
  "connectionKey a b = (if b < a then b @ ''-'' @ a else a @ ''-'' @ b)"

text \<open>
  \<open>dataPlatformConnections\<close> is a \<open>Map\<close>, iterated in insertion order: an association list.
  \<open>conn_upsert k new upd m\<close> is \<open>if (!m.has(k)) m.set(k, new) else upd(m.get(k))\<close>.
\<close>

fun conn_upsert :: "string \<Rightarrow> 'c \<Rightarrow> ('c \<Rightarrow> 'c) \<Rightarrow> (string \<times> 'c) list \<Rightarrow> (string \<times> 'c) list" where
  "conn_upsert k new upd [] = [(k, new)]"
| "conn_upsert k new upd ((k', c) # m) =
     (if k' = k then (k', upd c) # m else (k', c) # conn_upsert k new upd m)"

text \<open>The fields of a record as both builders read them.\<close>

definition sourceAppName :: "row \<Rightarrow> string" where
  "sourceAppName r = str_or (source_application_name r) ''Unknown''"

definition sourceTableCount :: "row \<Rightarrow> int" where
  "sourceTableCount r = num_or0 (source_table_count r)"

definition downstreamAppName :: "row \<Rightarrow> string" where
  "downstreamAppName r = str_or (downstream_application_name r) ''Unknown''"

definition downstreamTableCount :: "row \<Rightarrow> int" where
  "downstreamTableCount r = num_or0 (share_to_downstream_table_count r)"

text \<open>The downstream branch for an existing node: \<open>if (existingNode.type === 'source')\<close>
  the node becomes mixed and its colour is replaced.\<close>

definition promote_mixed :: "string \<Rightarrow> node \<Rightarrow> node" where
  "promote_mixed mixedColor n =
     (if node_type n = Source
      then n\<lparr>node_type := Mixed, isMixed := True, itemStyle_color := mixedColor\<rparr>
      else n)"

definition containerWidth :: real where "containerWidth = 1600"
definition containerHeight :: real where "containerHeight = 900"
definition centerX :: real where "centerX = containerWidth / 2"
definition centerY :: real where "centerY = containerHeight / 2"

subsection \<open>\<open>getMainGraphData\<close>: the circular layout\<close>

definition margin :: real where "margin = 40"

definition radius :: real where
  "radius = min containerWidth containerHeight / 2 - margin * 6"

definition main_regionNode :: "colorMap \<Rightarrow> nat \<Rightarrow> nat \<Rightarrow> string \<Rightarrow> node" where
  "main_regionNode colorMap n_total index dp =
     (let pos = getCircularPosition index n_total (radius * 0.6) centerX centerY
      in \<lparr>node_id = dp, node_name = dp, tables = None, node_type = Dataplatform,
          dataPlatform = None, isMixed = False, node_x = pos_x pos, node_y = pos_y pos,
          symbolSize = 120, itemStyle_color = str_or (colorMap (toLowerCase dp)) ''#4285F4'',
          itemStyle_borderWidth = None, itemStyle_borderColor = None,
          itemStyle_opacity = None\<rparr>)"

text \<open>\<open>Array.from(dataplatformSet).forEach((dataPlatform, index) => ...)\<close>: the node is
  pushed unless \<open>nodeMap\<close> has the id; \<open>regionNodeMap\<close> is set in any case.\<close>

definition main_platform_step :: "colorMap \<Rightarrow> nat \<Rightarrow> node list \<Rightarrow> nat \<times> string \<Rightarrow> node list" where
  "main_platform_step colorMap n_total ns idp =
     (if \<not> nodeMap_has ns (snd idp)
      then ns @ [main_regionNode colorMap n_total (fst idp) (snd idp)]
      else ns)"

definition main_platform_nodes :: "colorMap \<Rightarrow> string list \<Rightarrow> node list" where
  "main_platform_nodes colorMap dps =
     foldl (main_platform_step colorMap (length dps)) [] (enumerate 0 dps)"

definition main_regionNodeMap :: "colorMap \<Rightarrow> string list \<Rightarrow> string \<Rightarrow> node option" where
  "main_regionNodeMap colorMap dps =
     map_of (map (\<lambda>idp. (snd idp, main_regionNode colorMap (length dps) (fst idp) (snd idp)))
               (enumerate 0 dps))"

definition main_entity_position :: "real list \<Rightarrow> nat \<Rightarrow> nat \<Rightarrow> node \<Rightarrow> position" where
  "main_entity_position layerRadii index len regionNode =
     (let angle = atan2 (node_y regionNode - centerY) (node_x regionNode - centerX);
          startAngle = angle - pi / 6;
          endAngle = angle + pi / 6;
          layerIndex = index mod length layerRadii
      in getSectorPosition index len (layerRadii ! layerIndex) centerX centerY startAngle endAngle)"

definition sourceLayerRadii :: "real list" where
  "sourceLayerRadii = [radius * 0.3, radius * 0.5, radius * 0.7]"

definition downstreamLayerRadii :: "real list" where
  "downstreamLayerRadii = [radius * 0.3, radius * 0.5, radius * 0.7, radius * 0.9, radius * 1.1]"

definition main_source_node :: "colorMap \<Rightarrow> nat \<Rightarrow> nat \<Rightarrow> row \<Rightarrow> node \<Rightarrow> node" where
  "main_source_node colorMap len index r regionNode =
     (let pos = main_entity_position sourceLayerRadii index len regionNode
      in \<lparr>node_id = toLowerCase (sourceAppName r), node_name = sourceAppName r,
          tables = Some (sourceTableCount r), node_type = Source,
          dataPlatform = Some (platform_key r), isMixed = False,
          node_x = pos_x pos, node_y = pos_y pos,
          symbolSize = calculateSymbolSize (real_of_int (sourceTableCount r)),
          itemStyle_color = str_or (colorMap (platform_key r)) ''#91cc75'',
          itemStyle_borderWidth = None, itemStyle_borderColor = None,
          itemStyle_opacity = None\<rparr>)"

definition main_source_link :: "colorMap \<Rightarrow> row \<Rightarrow> link" where
  "main_source_link colorMap r =
     \<lparr>link_source = NodeId (toLowerCase (sourceAppName r)), link_target = NodeId (platform_key r),
      link_value = sourceTableCount r,
      link_lineStyle = Some \<lparr>ls_color = str_or (colorMap (platform_key r)) ''#91cc75'',
        ls_width = max 1 (min 5 (ln (real_of_int (sourceTableCount r + 1)))),
        ls_type = Solid, ls_opacity = 0.5, ls_curveness = 0.2\<rparr>\<rparr>"

text \<open>One round of \<open>sortedSourceEntityList.forEach((row, index) => ...)\<close>: an existing
  node only gains tables; a new node is created only if \<open>regionNodeMap\<close> knows the record's
  platform key; the link is pushed in every case.\<close>

definition main_source_step ::
  "colorMap \<Rightarrow> (string \<Rightarrow> node option) \<Rightarrow> nat \<Rightarrow> graph \<Rightarrow> nat \<times> row \<Rightarrow> graph" where
  "main_source_step colorMap regionNodeMap len g ir =
     \<lparr>nodes =
        (if nodeMap_has (nodes g) (toLowerCase (sourceAppName (snd ir)))
         then nodeMap_update (add_tables (sourceTableCount (snd ir)))
                (toLowerCase (sourceAppName (snd ir))) (nodes g)
         else (case regionNodeMap (platform_key (snd ir)) of
                 None \<Rightarrow> nodes g
               | Some regionNode \<Rightarrow>
                   nodes g @ [main_source_node colorMap len (fst ir) (snd ir) regionNode])),
      links = links g @ [main_source_link colorMap (snd ir)]\<rparr>"

definition main_downstream_node :: "colorMap \<Rightarrow> nat \<Rightarrow> nat \<Rightarrow> row \<Rightarrow> node \<Rightarrow> node" where
  "main_downstream_node colorMap len index r regionNode =
     (let pos = main_entity_position downstreamLayerRadii index len regionNode
      in \<lparr>node_id = toLowerCase (downstreamAppName r), node_name = downstreamAppName r,
          tables = Some (downstreamTableCount r), node_type = Downstream,
          dataPlatform = Some (platform_key r), isMixed = False,
          node_x = pos_x pos, node_y = pos_y pos,
          symbolSize = calculateSymbolSize (real_of_int (downstreamTableCount r)),
          itemStyle_color = str_or (colorMap (platform_key r)) ''#ee6666'',
          itemStyle_borderWidth = None, itemStyle_borderColor = None,
          itemStyle_opacity = None\<rparr>)"

definition main_downstream_link :: "colorMap \<Rightarrow> row \<Rightarrow> link" where
  "main_downstream_link colorMap r =
     \<lparr>link_source = NodeId (platform_key r), link_target = NodeId (toLowerCase (downstreamAppName r)),
      link_value = downstreamTableCount r,
      link_lineStyle = Some \<lparr>ls_color = str_or (colorMap (platform_key r)) ''#ee6666'',
        ls_width = max 1 (min 5 (ln (real_of_int (downstreamTableCount r + 1)))),
        ls_type = Solid, ls_opacity = 0.5, ls_curveness = 0.2\<rparr>\<rparr>"

definition main_downstream_step ::
  "colorMap \<Rightarrow> (string \<Rightarrow> node option) \<Rightarrow> nat \<Rightarrow> graph \<Rightarrow> nat \<times> row \<Rightarrow> graph" where
  "main_downstream_step colorMap regionNodeMap len g ir =
     \<lparr>nodes =
        (if nodeMap_has (nodes g) (toLowerCase (downstreamAppName (snd ir)))
         then nodeMap_update
                (\<lambda>n. promote_mixed ''#AA46BC'' (add_tables (downstreamTableCount (snd ir)) n))
                (toLowerCase (downstreamAppName (snd ir))) (nodes g)
         else (case regionNodeMap (platform_key (snd ir)) of
                 None \<Rightarrow> nodes g
               | Some regionNode \<Rightarrow>
                   nodes g @ [main_downstream_node colorMap len (fst ir) (snd ir) regionNode])),
      links = links g @ [main_downstream_link colorMap (snd ir)]\<rparr>"

text \<open>Platform-to-platform connections of \<open>getMainGraphData\<close>: the stored object is the link
  itself; a repeated key adds one to \<open>value\<close> and recomputes the width.\<close>

definition main_new_connection :: "string \<Rightarrow> string \<Rightarrow> link" where
  "main_new_connection a b =
     \<lparr>link_source = NodeId a, link_target = NodeId b, link_value = 1,
      link_lineStyle = Some \<lparr>ls_color = ''#999'', ls_width = 2, ls_type = Dashed,
        ls_opacity = 0.5, ls_curveness = 0.3\<rparr>\<rparr>"

definition main_bump_connection :: "link \<Rightarrow> link" where
  "main_bump_connection c =
     c\<lparr>link_value := link_value c + 1,
       link_lineStyle :=
         map_option (\<lambda>ls. ls\<lparr>ls_width := min 5 (1 + real_of_int (link_value c + 1) / 5)\<rparr>)
           (link_lineStyle c)\<rparr>"

definition main_connection_step :: "row \<Rightarrow> (string \<times> link) list \<Rightarrow> row \<Rightarrow> (string \<times> link) list" where
  "main_connection_step r m dsRow =
     (if sourceAppName r = downstreamAppName dsRow \<and> platform_key r \<noteq> platform_key dsRow
      then conn_upsert (connectionKey (platform_key r) (platform_key dsRow))
             (main_new_connection (platform_key r) (platform_key dsRow)) main_bump_connection m
      else m)"

definition main_connections :: "row list \<Rightarrow> row list \<Rightarrow> (string \<times> link) list" where
  "main_connections srcs dss = foldl (\<lambda>m r. foldl (main_connection_step r) m dss) [] srcs"

text \<open>The graph after the platform nodes and the two entity loops.\<close>

definition main_entities :: "row list \<Rightarrow> row list \<Rightarrow> colorMap \<Rightarrow> graph" where
  "main_entities sourceEntityList downstreamEntityList colorMap =
     (let dps = collect_platforms sourceEntityList downstreamEntityList;
          sortedSourceEntityList = sort_sources sourceEntityList;
          sortedDownstreamEntityList = sort_downstreams downstreamEntityList;
          regionNodeMap = main_regionNodeMap colorMap dps;
          g0 = \<lparr>nodes = main_platform_nodes colorMap dps, links = []\<rparr>;
          g1 = foldl (main_source_step colorMap regionNodeMap (length sortedSourceEntityList))
                 g0 (enumerate 0 sortedSourceEntityList)
      in foldl (main_downstream_step colorMap regionNodeMap (length sortedDownstreamEntityList))
           g1 (enumerate 0 sortedDownstreamEntityList))"

text \<open>\<open>dataPlatformConnections.forEach(connection => links.push(connection))\<close>: every
  connection is pushed.\<close>

definition getMainGraphData :: "row list \<Rightarrow> row list \<Rightarrow> colorMap \<Rightarrow> graph" where
  "getMainGraphData sourceEntityList downstreamEntityList colorMap =
     (let g = main_entities sourceEntityList downstreamEntityList colorMap
      in g\<lparr>links := links g @
              map snd (main_connections (sort_sources sourceEntityList)
                         (sort_downstreams downstreamEntityList))\<rparr>)"

subsection \<open>\<open>getVennNetworkLayout\<close>: the Venn layout\<close>

text \<open>
  Reading \<open>entity.data_platform.toLowerCase()\<close> on a record without \<open>data_platform\<close>
  throws a \<open>TypeError\<close>, which nothing in the function catches: the call returns no graph.
  The builder therefore returns \<open>error + graph\<close>. Every call of \<open>Math.random()\<close> is a read
  of the supply \<open>rnd\<close>: \<open>rnd k\<close> is the value of the \<open>k\<close>-th call of one build.
\<close>

datatype error = TypeError

fun forEach_throwing :: "('a \<Rightarrow> 'b \<Rightarrow> error + 'a) \<Rightarrow> 'a \<Rightarrow> 'b list \<Rightarrow> error + 'a" where
  "forEach_throwing f a [] = Inr a"
| "forEach_throwing f a (v # vs) =
     (case f a v of Inl e \<Rightarrow> Inl e | Inr a' \<Rightarrow> forEach_throwing f a' vs)"

definition dpRadius :: real where
  "dpRadius = min containerWidth containerHeight / 2.5"

definition getTypeValue :: "string \<Rightarrow> nat" where
  "getTypeValue name =
     (if str_includes name ''warehouse'' then 1
      else if str_includes name ''lake'' then 2
      else if str_includes name ''stream'' then 3
      else if str_includes name ''big data'' then 4
      else if str_includes name ''mesh'' then 5
      else 6)"

text \<open>\<open>dataPlatforms.sort((a, b) => getTypeValue(a) - getTypeValue(b))\<close>, a stable sort.\<close>

definition sort_platforms :: "string list \<Rightarrow> string list" where
  "sort_platforms dps = sort_key getTypeValue dps"

text \<open>\<open>platformConnectionCounts[platform] = (platformConnectionCounts[platform] || 0) + 1\<close>
  with \<open>platform = entity.data_platform.toLowerCase()\<close>.\<close>

definition count_step :: "(string \<Rightarrow> nat option) \<Rightarrow> row \<Rightarrow> error + (string \<Rightarrow> nat option)" where
  "count_step counts entity =
     (case data_platform entity of
        None \<Rightarrow> Inl TypeError
      | Some p \<Rightarrow>
          Inr (counts(toLowerCase p \<mapsto>
                 (case counts (toLowerCase p) of None \<Rightarrow> 0 | Some c \<Rightarrow> c) + 1)))"

definition platformConnectionCounts ::
  "row list \<Rightarrow> row list \<Rightarrow> error + (string \<Rightarrow> nat option)" where
  "platformConnectionCounts srcs dss =
     (case forEach_throwing count_step Map.empty srcs of
        Inl e \<Rightarrow> Inl e
      | Inr counts \<Rightarrow> forEach_throwing count_step counts dss)"

definition venn_regionNode ::
  "colorMap \<Rightarrow> (string \<Rightarrow> nat option) \<Rightarrow> nat \<Rightarrow> nat \<Rightarrow> string \<Rightarrow> node" where
  "venn_regionNode colorMap counts n_total index dp =
     (let connectionCount = (case counts dp of None \<Rightarrow> 0 | Some c \<Rightarrow> c);
          connectionFactor = min 1.2 (max 0.9 (0.9 + real connectionCount / 1000));
          platformTypeRadius = dpRadius * connectionFactor * (0.9 + real (index mod 4) * 0.1);
          angle = (real index / real n_total) * 2 * pi
      in \<lparr>node_id = dp, node_name = dp, tables = None, node_type = Dataplatform,
          dataPlatform = None, isMixed = False,
          node_x = centerX + platformTypeRadius * cos angle,
          node_y = centerY + platformTypeRadius * sin angle,
          symbolSize = 120, itemStyle_color = str_or (colorMap (toLowerCase dp)) ''#4285F4'',
          itemStyle_borderWidth = None, itemStyle_borderColor = None,
          itemStyle_opacity = None\<rparr>)"

definition venn_platform_nodes ::
  "colorMap \<Rightarrow> (string \<Rightarrow> nat option) \<Rightarrow> string list \<Rightarrow> node list" where
  "venn_platform_nodes colorMap counts dps =
     map (\<lambda>idp. venn_regionNode colorMap counts (length dps) (fst idp) (snd idp))
       (enumerate 0 dps)"

definition venn_regionNodeMap ::
  "colorMap \<Rightarrow> (string \<Rightarrow> nat option) \<Rightarrow> string list \<Rightarrow> string \<Rightarrow> node option" where
  "venn_regionNodeMap colorMap counts dps =
     map_of (map (\<lambda>idp. (snd idp,
                    venn_regionNode colorMap counts (length dps) (fst idp) (snd idp)))
               (enumerate 0 dps))"

record sector =
  startAngle :: real
  endAngle :: real

definition sectorMap :: "string list \<Rightarrow> string \<Rightarrow> sector option" where
  "sectorMap dps =
     map_of (map (\<lambda>idp. (snd idp,
                    \<lparr>startAngle = (real (fst idp) / real (length dps)) * 2 * pi,
                     endAngle = (real (fst idp + 1) / real (length dps)) * 2 * pi\<rparr>))
               (enumerate 0 dps))"

text \<open>\<open>sourcesByPlatform\<close> and \<open>downstreamsByPlatform\<close>: every platform starts with \<open>[]\<close>,
  then each record of the sorted list is appended under its \<open>platform_key\<close>.\<close>

definition group_step :: "(string \<Rightarrow> row list option) \<Rightarrow> row \<Rightarrow> (string \<Rightarrow> row list option)" where
  "group_step m r =
     m(platform_key r \<mapsto> (case m (platform_key r) of None \<Rightarrow> [] | Some l \<Rightarrow> l) @ [r])"

definition groupByPlatform :: "string list \<Rightarrow> row list \<Rightarrow> string \<Rightarrow> row list option" where
  "groupByPlatform dps rs = foldl group_step (map_of (map (\<lambda>dp. (dp, [])) dps)) rs"

record venn_build = graph +
  draws :: nat

text \<open>Placement of a source inside the ring, from its \<open>index\<close> within the platform's
  group: \<open>totalLayers\<close>, \<open>layerIndex\<close>, \<open>nodesPerLayer\<close>, \<open>indexInLayer\<close> and the angle,
  where \<open>rand\<close> is the value \<open>Math.random()\<close> returned.\<close>

definition totalLayers :: nat where "totalLayers = 8"

definition layerIndex :: "nat \<Rightarrow> nat" where
  "layerIndex index = index mod totalLayers"

definition nodesPerLayer :: "nat \<Rightarrow> nat" where
  "nodesPerLayer index = 5 + layerIndex index * 3"

definition indexInLayer :: "nat \<Rightarrow> nat" where
  "indexInLayer index = (index div totalLayers) mod nodesPerLayer index"

definition source_angle :: "sector \<Rightarrow> nat \<Rightarrow> real \<Rightarrow> real" where
  "source_angle sec index rand =
     (let angleOffset = (real (indexInLayer index) / real (nodesPerLayer index))
                        * (endAngle sec - startAngle sec);
          randomOffset = (rand - 0.5) * 0.05
      in startAngle sec + angleOffset + randomOffset)"

definition innerRadius :: "nat \<Rightarrow> int \<Rightarrow> real" where
  "innerRadius index count =
     (let tableCountFactor = min 0.8 (max 0.3 (real_of_int count / 300));
          layerFactor = 0.25 + (real (layerIndex index) / real totalLayers) * 0.65
      in dpRadius * tableCountFactor * layerFactor)"

definition venn_source_node :: "colorMap \<Rightarrow> sector \<Rightarrow> string \<Rightarrow> nat \<Rightarrow> row \<Rightarrow> real \<Rightarrow> node" where
  "venn_source_node colorMap sec dp index r rand =
     \<lparr>node_id = toLowerCase (sourceAppName r), node_name = sourceAppName r,
      tables = Some (sourceTableCount r), node_type = Source,
      dataPlatform = Some dp, isMixed = False,
      node_x = centerX + innerRadius index (sourceTableCount r) * cos (source_angle sec index rand),
      node_y = centerY + innerRadius index (sourceTableCount r) * sin (source_angle sec index rand),
      symbolSize = calculateSymbolSize (real_of_int (sourceTableCount r)),
      itemStyle_color = str_or (colorMap ''source'') ''#34A853'',
      itemStyle_borderWidth = None, itemStyle_borderColor = None,
      itemStyle_opacity = None\<rparr>"

definition venn_source_link :: "colorMap \<Rightarrow> string \<Rightarrow> row \<Rightarrow> real \<Rightarrow> link" where
  "venn_source_link colorMap dp r rand =
     \<lparr>link_source = NodeId (toLowerCase (sourceAppName r)), link_target = NodeId dp,
      link_value = sourceTableCount r,
      link_lineStyle = Some \<lparr>ls_color = str_or (colorMap ''source'') ''#34A853'',
        ls_width = max 1 (min 3 (ln (real_of_int (sourceTableCount r + 1)) / 2)),
        ls_type = Solid,
        ls_opacity = max 0.2 (min 0.5 (0.3 + real_of_int (sourceTableCount r) / 200)),
        ls_curveness = 0.2 + rand * 0.1\<rparr>\<rparr>"

text \<open>One round of \<open>sources.forEach((source, index) => ...)\<close>: for an existing node the
  tables are added and the round returns, before any link is pushed; otherwise the node
  and its link are pushed, with two calls of \<open>Math.random()\<close>.\<close>

definition venn_source_step ::
  "colorMap \<Rightarrow> (nat \<Rightarrow> real) \<Rightarrow> sector \<Rightarrow> string \<Rightarrow> venn_build \<Rightarrow> nat \<times> row \<Rightarrow> venn_build" where
  "venn_source_step colorMap rnd sec dp b ir =
     (if nodeMap_has (nodes b) (toLowerCase (sourceAppName (snd ir)))
      then b\<lparr>nodes := nodeMap_update (add_tables (sourceTableCount (snd ir)))
                         (toLowerCase (sourceAppName (snd ir))) (nodes b)\<rparr>
      else b\<lparr>nodes := nodes b @ [venn_source_node colorMap sec dp (fst ir) (snd ir) (rnd (draws b))],
             links := links b @ [venn_source_link colorMap dp (snd ir) (rnd (draws b + 1))],
             draws := draws b + 2\<rparr>)"

text \<open>One round of \<open>dataPlatforms.forEach(dataPlatform => ...)\<close> for the sources: skipped
  unless both \<open>regionNodeMap\<close> and \<open>sectorMap\<close> know the platform.\<close>

definition venn_source_platform ::
  "colorMap \<Rightarrow> (nat \<Rightarrow> real) \<Rightarrow> (string \<Rightarrow> node option) \<Rightarrow> (string \<Rightarrow> sector option) \<Rightarrow>
   (string \<Rightarrow> row list option) \<Rightarrow> venn_build \<Rightarrow> string \<Rightarrow> venn_build" where
  "venn_source_platform colorMap rnd regionNodeMap sectors sourcesByPlatform b dp =
     (case (regionNodeMap dp, sectors dp) of
        (Some dpNode, Some sec) \<Rightarrow>
          foldl (venn_source_step colorMap rnd sec dp) b
            (enumerate 0 (case sourcesByPlatform dp of None \<Rightarrow> [] | Some l \<Rightarrow> l))
      | _ \<Rightarrow> b)"

text \<open>Placement of a downstream outside the ring.\<close>

definition dsLayerCount :: nat where "dsLayerCount = 9"

definition dsLayerIndex :: "nat \<Rightarrow> nat" where
  "dsLayerIndex index = index mod dsLayerCount"

definition dsNodesPerLayer :: "nat \<Rightarrow> nat" where
  "dsNodesPerLayer index = 7 + dsLayerIndex index * 4"

definition dsIndexInLayer :: "nat \<Rightarrow> nat" where
  "dsIndexInLayer index = (index div dsLayerCount) mod dsNodesPerLayer index"

definition downstream_angle :: "sector \<Rightarrow> nat \<Rightarrow> real \<Rightarrow> real" where
  "downstream_angle sec index rand =
     (let dsAngleOffset = (real (dsIndexInLayer index) / real (dsNodesPerLayer index))
                          * (endAngle sec - startAngle sec);
          dsRandomOffset = (rand - 0.5) * 0.05
      in startAngle sec + dsAngleOffset + dsRandomOffset)"

definition outerRadius :: "nat \<Rightarrow> int \<Rightarrow> real" where
  "outerRadius index count =
     (let tableCountFactor = min 2.2 (max 1.2 (1.2 + real_of_int count / 200));
          dsLayerFactor = 1.2 + (real (dsLayerIndex index) / real dsLayerCount) * 1.0
      in dpRadius * tableCountFactor * (dsLayerFactor / 2.2))"

definition venn_downstream_node ::
  "colorMap \<Rightarrow> sector \<Rightarrow> string \<Rightarrow> nat \<Rightarrow> row \<Rightarrow> real \<Rightarrow> node" where
  "venn_downstream_node colorMap sec dp index r rand =
     \<lparr>node_id = toLowerCase (downstreamAppName r), node_name = downstreamAppName r,
      tables = Some (downstreamTableCount r), node_type = Downstream,
      dataPlatform = Some dp, isMixed = False,
      node_x = centerX
        + outerRadius index (downstreamTableCount r) * cos (downstream_angle sec index rand),
      node_y = centerY
        + outerRadius index (downstreamTableCount r) * sin (downstream_angle sec index rand),
      symbolSize = calculateSymbolSize (real_of_int (downstreamTableCount r)),
      itemStyle_color = str_or (colorMap ''downstream'') ''#EA4335'',
      itemStyle_borderWidth = None, itemStyle_borderColor = None,
      itemStyle_opacity = None\<rparr>"

definition venn_downstream_link :: "colorMap \<Rightarrow> string \<Rightarrow> row \<Rightarrow> real \<Rightarrow> link" where
  "venn_downstream_link colorMap dp r rand =
     \<lparr>link_source = NodeId dp, link_target = NodeId (toLowerCase (downstreamAppName r)),
      link_value = downstreamTableCount r,
      link_lineStyle = Some \<lparr>ls_color = str_or (colorMap ''downstream'') ''#EA4335'',
        ls_width = max 1 (min 3 (ln (real_of_int (downstreamTableCount r + 1)) / 2)),
        ls_type = Solid,
        ls_opacity = max 0.2 (min 0.5 (0.3 + real_of_int (downstreamTableCount r) / 200)),
        ls_curveness = 0.2 + rand * 0.1\<rparr>\<rparr>"

definition venn_downstream_step ::
  "colorMap \<Rightarrow> (nat \<Rightarrow> real) \<Rightarrow> sector \<Rightarrow> string \<Rightarrow> venn_build \<Rightarrow> nat \<times> row \<Rightarrow> venn_build" where
  "venn_downstream_step colorMap rnd sec dp b ir =
     (if nodeMap_has (nodes b) (toLowerCase (downstreamAppName (snd ir)))
      then b\<lparr>nodes := nodeMap_update
                (\<lambda>n. promote_mixed (str_or (colorMap ''mixed'') ''#AA46BC'')
                       (add_tables (downstreamTableCount (snd ir)) n))
                (toLowerCase (downstreamAppName (snd ir))) (nodes b)\<rparr>
      else b\<lparr>nodes := nodes b @
                [venn_downstream_node colorMap sec dp (fst ir) (snd ir) (rnd (draws b))],
             links := links b @ [venn_downstream_link colorMap dp (snd ir) (rnd (draws b + 1))],
             draws := draws b + 2\<rparr>)"

definition venn_downstream_platform ::
  "colorMap \<Rightarrow> (nat \<Rightarrow> real) \<Rightarrow> (string \<Rightarrow> node option) \<Rightarrow> (string \<Rightarrow> sector option) \<Rightarrow>
   (string \<Rightarrow> row list option) \<Rightarrow> venn_build \<Rightarrow> string \<Rightarrow> venn_build" where
  "venn_downstream_platform colorMap rnd regionNodeMap sectors downstreamsByPlatform b dp =
     (case (regionNodeMap dp, sectors dp) of
        (Some dpNode, Some sec) \<Rightarrow>
          foldl (venn_downstream_step colorMap rnd sec dp) b
            (enumerate 0 (case downstreamsByPlatform dp of None \<Rightarrow> [] | Some l \<Rightarrow> l))
      | _ \<Rightarrow> b)"

text \<open>Platform-to-platform connections of the Venn layout. The names are compared as
  the records hold them (no default, no lower-casing); both platforms are read with
  \<open>.data_platform.toLowerCase()\<close>, which throws on a record without the field.\<close>

record connection =
  conn_source :: string
  conn_target :: string
  conn_value :: int

definition venn_connection_step ::
  "string \<Rightarrow> string option \<Rightarrow> (string \<times> connection) list \<Rightarrow> row \<Rightarrow>
   error + (string \<times> connection) list" where
  "venn_connection_step dp appName m dsEntity =
     (case data_platform dsEntity of
        None \<Rightarrow> Inl TypeError
      | Some p \<Rightarrow>
          Inr (if appName = downstream_application_name dsEntity \<and> dp \<noteq> toLowerCase p
               then conn_upsert (connectionKey dp (toLowerCase p))
                      \<lparr>conn_source = dp, conn_target = toLowerCase p, conn_value = 1\<rparr>
                      (\<lambda>c. c\<lparr>conn_value := conn_value c + 1\<rparr>) m
               else m))"

definition venn_connections :: "row list \<Rightarrow> row list \<Rightarrow> error + (string \<times> connection) list" where
  "venn_connections srcs dss =
     forEach_throwing
       (\<lambda>m entity. case data_platform entity of
            None \<Rightarrow> Inl TypeError
          | Some p \<Rightarrow>
              forEach_throwing
                (venn_connection_step (toLowerCase p) (source_application_name entity)) m dss)
       [] srcs"

definition venn_connection_link :: "connection \<Rightarrow> real \<Rightarrow> link" where
  "venn_connection_link c rand =
     \<lparr>link_source = NodeId (conn_source c), link_target = NodeId (conn_target c),
      link_value = conn_value c,
      link_lineStyle = Some \<lparr>ls_color = ''#9370DB'',
        ls_width = min 4 (max 1 (ln (real_of_int (conn_value c)) / 2)),
        ls_type = Dashed,
        ls_opacity = min 0.6 (0.3 + real_of_int (conn_value c) / 100),
        ls_curveness = 0.3 + rand * 0.1\<rparr>\<rparr>"

text \<open>\<open>if (connection.value > 3) links.push(...)\<close>\<close>

definition venn_emit_step :: "(nat \<Rightarrow> real) \<Rightarrow> venn_build \<Rightarrow> string \<times> connection \<Rightarrow> venn_build" where
  "venn_emit_step rnd b kc =
     (if conn_value (snd kc) > 3
      then b\<lparr>links := links b @ [venn_connection_link (snd kc) (rnd (draws b))],
             draws := draws b + 1\<rparr>
      else b)"

text \<open>The build after the platform nodes and the two entity loops, given the counts.\<close>

definition venn_entities ::
  "row list \<Rightarrow> row list \<Rightarrow> colorMap \<Rightarrow> (nat \<Rightarrow> real) \<Rightarrow> (string \<Rightarrow> nat option) \<Rightarrow> venn_build" where
  "venn_entities sourceEntityList downstreamEntityList colorMap rnd counts =
     (let dataPlatforms = sort_platforms (collect_platforms sourceEntityList downstreamEntityList);
          regionNodeMap = venn_regionNodeMap colorMap counts dataPlatforms;
          sectors = sectorMap dataPlatforms;
          sourcesByPlatform = groupByPlatform dataPlatforms (sort_sources sourceEntityList);
          downstreamsByPlatform =
            groupByPlatform dataPlatforms (sort_downstreams downstreamEntityList);
          b0 = \<lparr>nodes = venn_platform_nodes colorMap counts dataPlatforms,
                links = [], draws = 0\<rparr>;
          b1 = foldl (venn_source_platform colorMap rnd regionNodeMap sectors sourcesByPlatform)
                 b0 dataPlatforms
      in foldl (venn_downstream_platform colorMap rnd regionNodeMap sectors
                  downstreamsByPlatform) b1 dataPlatforms)"

definition getVennNetworkLayout ::
  "row list \<Rightarrow> row list \<Rightarrow> colorMap \<Rightarrow> (nat \<Rightarrow> real) \<Rightarrow> error + graph" where
  "getVennNetworkLayout sourceEntityList downstreamEntityList colorMap rnd =
     (case platformConnectionCounts sourceEntityList downstreamEntityList of
        Inl e \<Rightarrow> Inl e
      | Inr counts \<Rightarrow>
          (case venn_connections sourceEntityList downstreamEntityList of
             Inl e \<Rightarrow> Inl e
           | Inr conns \<Rightarrow>
               (let b = foldl (venn_emit_step rnd)
                          (venn_entities sourceEntityList downstreamEntityList colorMap rnd
                             counts) conns
                in Inr \<lparr>nodes = nodes b, links = links b\<rparr>)))"

subsection \<open>\<open>getChartOptions\<close>: hover highlighting\<close>

text \<open>
  \<open>hoveredNode\<close> is a node id or \<open>null\<close>; as a condition it is truthy when it is a non-empty
  string. Of the options object only \<open>series[0].data\<close> and \<open>series[0].links\<close> depend on
  the arguments; they are returned here as a graph.
\<close>

definition truthy :: "string option \<Rightarrow> bool" where
  "truthy h = (case h of None \<Rightarrow> False | Some v \<Rightarrow> v \<noteq> [])"

text \<open>In the node pass: \<open>typeof e === 'object' ? e.id : e\<close>, which throws on \<open>null\<close>.\<close>

definition endpoint_id_throwing :: "endpoint \<Rightarrow> error + string" where
  "endpoint_id_throwing e =
     (case e of NodeId v \<Rightarrow> Inr v | NodeObj v \<Rightarrow> Inr v | Null \<Rightarrow> Inl TypeError)"

text \<open>The callback of \<open>data.links.some(...)\<close>; its \<open>catch\<close> returns \<open>false\<close>.\<close>

definition link_joins :: "string \<Rightarrow> string \<Rightarrow> link \<Rightarrow> bool" where
  "link_joins hovered nid l =
     (case endpoint_id_throwing (link_source l) of
        Inl e \<Rightarrow> False
      | Inr sourceId \<Rightarrow>
          (case endpoint_id_throwing (link_target l) of
             Inl e \<Rightarrow> False
           | Inr targetId \<Rightarrow>
               (sourceId = hovered \<and> targetId = nid) \<or> (targetId = hovered \<and> sourceId = nid)))"

definition process_node :: "'a graph_scheme \<Rightarrow> string option \<Rightarrow> node \<Rightarrow> node" where
  "process_node data hoveredNode n =
     n\<lparr>itemStyle_borderWidth := Some (if hoveredNode = Some (node_id n) then 3 else 1),
       itemStyle_borderColor :=
         Some (if hoveredNode = Some (node_id n) then ''#FFD700''
               else ''rgba(255, 255, 255, 0.5)''),
       itemStyle_opacity :=
         Some (case hoveredNode of
                 None \<Rightarrow> 1
               | Some h \<Rightarrow>
                   if h = [] then 1
                   else if h = node_id n \<or> list_ex (link_joins h (node_id n)) (links data)
                        then 1 else 0.3)\<rparr>"

text \<open>In the link pass: \<open>typeof e === 'object' ? (e ? e.id : null) : e\<close>.\<close>

definition endpoint_id :: "endpoint \<Rightarrow> string option" where
  "endpoint_id e = (case e of NodeId v \<Rightarrow> Some v | NodeObj v \<Rightarrow> Some v | Null \<Rightarrow> None)"

text \<open>A link without \<open>lineStyle\<close> makes \<open>link.lineStyle.width\<close> (or \<open>.opacity\<close>) throw;
  the \<open>catch\<close> returns the link as it is.\<close>

definition process_link :: "string option \<Rightarrow> link \<Rightarrow> link" where
  "process_link hoveredNode l =
     (case link_lineStyle l of
        None \<Rightarrow> l
      | Some ls \<Rightarrow>
          l\<lparr>link_lineStyle := Some (ls\<lparr>
              ls_opacity :=
                (if truthy hoveredNode
                 then (if endpoint_id (link_source l) = hoveredNode
                          \<or> endpoint_id (link_target l) = hoveredNode then 0.8 else 0.1)
                 else (if ls_opacity ls = 0 then 0.5 else ls_opacity ls)),
              ls_width :=
                (if truthy hoveredNode
                 then (if endpoint_id (link_source l) = hoveredNode
                          \<or> endpoint_id (link_target l) = hoveredNode
                       then ls_width ls * 1.5 else ls_width ls)
                 else ls_width ls)\<rparr>)\<rparr>)"


section \<open>Input literals\<close>

text \<open>The object literals \<open>{data_platform: p, source_application_name: n,
  source_table_count: c}\<close> and its downstream counterpart.\<close>

definition source_record :: "string option \<Rightarrow> string option \<Rightarrow> int option \<Rightarrow> row" where
  "source_record p n c =
     \<lparr>data_platform = p, source_application_name = n, source_table_count = c,
      downstream_application_name = None, share_to_downstream_table_count = None\<rparr>"

definition downstream_record :: "string option \<Rightarrow> string option \<Rightarrow> int option \<Rightarrow> row" where
  "downstream_record p n c =
     \<lparr>data_platform = p, source_application_name = None, source_table_count = None,
      downstream_application_name = n, share_to_downstream_table_count = c\<rparr>"

text \<open>The records \<open>{name: "svc", platform: "p1"}\<close> as a source and
  \<open>{name: "svc", platform: "p2"}\<close> as a downstream, and a source node for the first.\<close>

definition svc_source :: row where
  "svc_source = source_record (Some ''p1'') (Some ''svc'') None"

definition svc_downstream :: row where
  "svc_downstream = downstream_record (Some ''p2'') (Some ''svc'') None"

definition svc_node :: node where
  "svc_node = venn_source_node Map.empty \<lparr>startAngle = 0, endAngle = 1\<rparr> ''p1'' 0 svc_source 0"




section \<open>Notions used in the statements\<close>

subsection \<open>Platform nodes\<close>

text \<open>The ids of the platform nodes of a node list, in the order of the list.\<close>

definition platform_ids :: "node list \<Rightarrow> string list" where
  "platform_ids ns = map node_id (filter (\<lambda>n. node_type n = Dataplatform) ns)"

subsection \<open>Highlighting\<close>




subsection \<open>Promotion to mixed\<close>

text \<open>What a downstream record with table count \<open>c\<close> leaves of a source node: more tables,
  the mixed type and colour, every other field (the platform among them) as it was.\<close>

definition mixed_of :: "string \<Rightarrow> int \<Rightarrow> node \<Rightarrow> node" where
  "mixed_of mixedColor c n =
     n\<lparr>tables := map_option (\<lambda>t. t + c) (tables n), node_type := Mixed, isMixed := True,
       itemStyle_color := mixedColor\<rparr>"

subsection \<open>Placement in the Venn layout\<close>







subsection \<open>Links and connections\<close>










subsection \<open>Keys, types and weights\<close>


















section \<open>Evaluation\<close>

lemmas str_eval = toLowerCase_def toLowerCase_char_def char_of_def bit_Suc_0_iff str_or_def
  num_or0_def connectionKey_def str_includes_def sublist_Cons_right

lemmas row_eval = source_record_def downstream_record_def sourceAppName_def
  downstreamAppName_def sourceTableCount_def downstreamTableCount_def platform_key_def
  platform_set_key_def collect_platforms_def set_add_def sort_sources_def sort_downstreams_def
  nodeMap_has_def nodeMap_update_def add_tables_def promote_mixed_def enumerate_eq_zip Let_def

lemmas main_eval = getMainGraphData_def main_entities_def main_regionNodeMap_def
  main_platform_nodes_def main_platform_step_def main_regionNode_def main_source_step_def
  main_downstream_step_def main_source_node_def main_downstream_node_def main_source_link_def
  main_downstream_link_def main_connection_step_def main_new_connection_def
  main_bump_connection_def main_connections_def

lemmas venn_eval = getVennNetworkLayout_def venn_entities_def platformConnectionCounts_def
  count_step_def sort_platforms_def getTypeValue_def venn_regionNodeMap_def
  venn_platform_nodes_def venn_regionNode_def sectorMap_def groupByPlatform_def group_step_def
  venn_source_platform_def venn_source_step_def venn_source_node_def venn_source_link_def
  venn_downstream_platform_def venn_downstream_step_def venn_downstream_node_def
  venn_downstream_link_def venn_connections_def venn_connection_step_def venn_emit_step_def
  venn_connection_link_def

section \<open>Symbol size\<close>

lemma css_bounds: "20 \<le> calculateSymbolSize v \<and> calculateSymbolSize v \<le> 100"
  by (simp add: calculateSymbolSize_def)

lemma css_mono: "v \<le> w \<Longrightarrow> calculateSymbolSize v \<le> calculateSymbolSize w"
proof (cases "v \<le> 0")
  case True
  then show ?thesis using css_bounds[of w] by (simp add: calculateSymbolSize_def)
next
  case False
  assume "v \<le> w"
  with False have pos: "0 < v" "0 < w" and l: "ln v \<le> ln w" by auto
  have "min 100 (max 20 (ln v * 8)) \<le> min 100 (max 20 (ln w * 8))"
    using l by linarith
  with pos show ?thesis by (simp add: calculateSymbolSize_def)
qed


section \<open>Properties of every node of a built graph\<close>

text \<open>A property that the platform nodes and the new entity nodes have, and that adding
  tables and promoting to mixed keep, holds of every node of the built graph.\<close>

lemma nodeMap_update_all:
  "list_all Q ns \<Longrightarrow> (\<And>n. Q n \<Longrightarrow> Q (f n)) \<Longrightarrow> list_all Q (nodeMap_update f k ns)"
  by (induction ns) (auto simp: nodeMap_update_def)

lemma main_platform_nodes_all:
  assumes "\<And>t i dp. Q (main_regionNode colorMap t i dp)"
  shows "list_all Q (main_platform_nodes colorMap dps)"
proof -
  have "list_all Q ns \<Longrightarrow> list_all Q (foldl (main_platform_step colorMap t) ns xs)" for ns t xs
    by (induction xs arbitrary: ns) (auto simp: main_platform_step_def assms)
  then show ?thesis by (simp add: main_platform_nodes_def)
qed

lemma main_source_step_all:
  assumes "list_all Q (nodes g)" "\<And>n c. Q n \<Longrightarrow> Q (add_tables c n)"
    "\<And>len i r rn. Q (main_source_node colorMap len i r rn)"
  shows "list_all Q (nodes (main_source_step colorMap rm len g ir))"
  using assms by (auto simp: main_source_step_def intro: nodeMap_update_all split: option.splits)

lemma main_source_fold_all:
  assumes "list_all Q (nodes g)" "\<And>n c. Q n \<Longrightarrow> Q (add_tables c n)"
    "\<And>len i r rn. Q (main_source_node colorMap len i r rn)"
  shows "list_all Q (nodes (foldl (main_source_step colorMap rm len) g xs))"
  using assms(1)
  by (induction xs arbitrary: g) (auto intro: main_source_step_all assms(2,3))

lemma main_downstream_step_all:
  assumes "list_all Q (nodes g)" "\<And>n c. Q n \<Longrightarrow> Q (add_tables c n)"
    "\<And>n c. Q n \<Longrightarrow> Q (promote_mixed c n)"
    "\<And>len i r rn. Q (main_downstream_node colorMap len i r rn)"
  shows "list_all Q (nodes (main_downstream_step colorMap rm len g ir))"
  using assms by (auto simp: main_downstream_step_def intro: nodeMap_update_all split: option.splits)

lemma main_downstream_fold_all:
  assumes "list_all Q (nodes g)" "\<And>n c. Q n \<Longrightarrow> Q (add_tables c n)"
    "\<And>n c. Q n \<Longrightarrow> Q (promote_mixed c n)"
    "\<And>len i r rn. Q (main_downstream_node colorMap len i r rn)"
  shows "list_all Q (nodes (foldl (main_downstream_step colorMap rm len) g xs))"
  using assms(1)
  by (induction xs arbitrary: g) (auto intro: main_downstream_step_all assms(2,3,4))

lemma getMainGraphData_all:
  assumes "\<And>t i dp. Q (main_regionNode colorMap t i dp)"
    "\<And>n c. Q n \<Longrightarrow> Q (add_tables c n)"
    "\<And>n c. Q n \<Longrightarrow> Q (promote_mixed c n)"
    "\<And>len i r rn. Q (main_source_node colorMap len i r rn)"
    "\<And>len i r rn. Q (main_downstream_node colorMap len i r rn)"
  shows "list_all Q (nodes (getMainGraphData srcs dss colorMap))"
  unfolding getMainGraphData_def main_entities_def Let_def
  by (simp, intro main_downstream_fold_all main_source_fold_all)
     (simp_all add: main_platform_nodes_all assms)

lemma venn_platform_nodes_all:
  assumes "\<And>t i dp. Q (venn_regionNode colorMap counts t i dp)"
  shows "list_all Q (venn_platform_nodes colorMap counts dps)"
  by (simp add: venn_platform_nodes_def list_all_iff assms)

lemma venn_source_step_all:
  assumes "list_all Q (nodes b)" "\<And>n c. Q n \<Longrightarrow> Q (add_tables c n)"
    "\<And>sec dp i r rand. Q (venn_source_node colorMap sec dp i r rand)"
  shows "list_all Q (nodes (venn_source_step colorMap rnd sec dp b ir))"
  using assms by (auto simp: venn_source_step_def intro: nodeMap_update_all)

lemma venn_source_fold_all:
  assumes "list_all Q (nodes b)" "\<And>n c. Q n \<Longrightarrow> Q (add_tables c n)"
    "\<And>sec dp i r rand. Q (venn_source_node colorMap sec dp i r rand)"
  shows "list_all Q (nodes (foldl (venn_source_step colorMap rnd sec dp) b xs))"
  using assms(1)
  by (induction xs arbitrary: b) (auto intro: venn_source_step_all assms(2,3))

lemma venn_source_platform_all:
  assumes "list_all Q (nodes b)" "\<And>n c. Q n \<Longrightarrow> Q (add_tables c n)"
    "\<And>sec dp i r rand. Q (venn_source_node colorMap sec dp i r rand)"
  shows "list_all Q (nodes (venn_source_platform colorMap rnd rm sm gm b dp))"
  using assms by (auto simp: venn_source_platform_def intro: venn_source_fold_all split: option.splits)

lemma venn_source_platforms_all:
  assumes "list_all Q (nodes b)" "\<And>n c. Q n \<Longrightarrow> Q (add_tables c n)"
    "\<And>sec dp i r rand. Q (venn_source_node colorMap sec dp i r rand)"
  shows "list_all Q (nodes (foldl (venn_source_platform colorMap rnd rm sm gm) b dps))"
  using assms(1)
  by (induction dps arbitrary: b) (auto intro: venn_source_platform_all assms(2,3))

lemma venn_downstream_step_all:
  assumes "list_all Q (nodes b)" "\<And>n c. Q n \<Longrightarrow> Q (add_tables c n)"
    "\<And>n c. Q n \<Longrightarrow> Q (promote_mixed c n)"
    "\<And>sec dp i r rand. Q (venn_downstream_node colorMap sec dp i r rand)"
  shows "list_all Q (nodes (venn_downstream_step colorMap rnd sec dp b ir))"
  using assms by (auto simp: venn_downstream_step_def intro: nodeMap_update_all)

lemma venn_downstream_fold_all:
  assumes "list_all Q (nodes b)" "\<And>n c. Q n \<Longrightarrow> Q (add_tables c n)"
    "\<And>n c. Q n \<Longrightarrow> Q (promote_mixed c n)"
    "\<And>sec dp i r rand. Q (venn_downstream_node colorMap sec dp i r rand)"
  shows "list_all Q (nodes (foldl (venn_downstream_step colorMap rnd sec dp) b xs))"
  using assms(1)
  by (induction xs arbitrary: b) (auto intro: venn_downstream_step_all assms(2,3,4))

lemma venn_downstream_platform_all:
  assumes "list_all Q (nodes b)" "\<And>n c. Q n \<Longrightarrow> Q (add_tables c n)"
    "\<And>n c. Q n \<Longrightarrow> Q (promote_mixed c n)"
    "\<And>sec dp i r rand. Q (venn_downstream_node colorMap sec dp i r rand)"
  shows "list_all Q (nodes (venn_downstream_platform colorMap rnd rm sm gm b dp))"
  using assms by (auto simp: venn_downstream_platform_def intro: venn_downstream_fold_all split: option.splits)

lemma venn_downstream_platforms_all:
  assumes "list_all Q (nodes b)" "\<And>n c. Q n \<Longrightarrow> Q (add_tables c n)"
    "\<And>n c. Q n \<Longrightarrow> Q (promote_mixed c n)"
    "\<And>sec dp i r rand. Q (venn_downstream_node colorMap sec dp i r rand)"
  shows "list_all Q (nodes (foldl (venn_downstream_platform colorMap rnd rm sm gm) b dps))"
  using assms(1)
  by (induction dps arbitrary: b) (auto intro: venn_downstream_platform_all assms(2,3,4))

lemma venn_emit_nodes: "nodes (foldl (venn_emit_step rnd) b conns) = nodes b"
  by (induction conns arbitrary: b) (auto simp: venn_emit_step_def)


section \<open>When the Venn builder returns a graph\<close>



lemma getVennNetworkLayout_InrD:
  assumes "getVennNetworkLayout srcs dss colorMap rnd = Inr g"
  obtains counts conns where "platformConnectionCounts srcs dss = Inr counts"
    "venn_connections srcs dss = Inr conns"
    "nodes g = nodes (venn_entities srcs dss colorMap rnd counts)"
    "links g = links (foldl (venn_emit_step rnd) (venn_entities srcs dss colorMap rnd counts) conns)"
  using assms by (auto simp: getVennNetworkLayout_def Let_def venn_emit_nodes split: sum.splits)

lemma venn_entities_all:
  assumes "\<And>t i dp. Q (venn_regionNode colorMap counts t i dp)"
    "\<And>n c. Q n \<Longrightarrow> Q (add_tables c n)"
    "\<And>n c. Q n \<Longrightarrow> Q (promote_mixed c n)"
    "\<And>sec dp i r rand. Q (venn_source_node colorMap sec dp i r rand)"
    "\<And>sec dp i r rand. Q (venn_downstream_node colorMap sec dp i r rand)"
  shows "list_all Q (nodes (venn_entities srcs dss colorMap rnd counts))"
  unfolding venn_entities_def Let_def
  by (intro venn_downstream_platforms_all venn_source_platforms_all)
     (simp_all add: venn_platform_nodes_all assms)

lemma platform_size_keep:
  "node_type n = Dataplatform \<longrightarrow> symbolSize n = 120 \<Longrightarrow>
   node_type (add_tables c n) = Dataplatform \<longrightarrow> symbolSize (add_tables c n) = 120"
  "node_type n = Dataplatform \<longrightarrow> symbolSize n = 120 \<Longrightarrow>
   node_type (promote_mixed col n) = Dataplatform \<longrightarrow> symbolSize (promote_mixed col n) = 120"
  by (auto simp: add_tables_def promote_mixed_def)

section \<open>Platform nodes and their order\<close>

lemma platform_ids_append [simp]: "platform_ids (ns @ ms) = platform_ids ns @ platform_ids ms"
  by (simp add: platform_ids_def)


lemma add_tables_keeps [simp]:
  "node_id (add_tables c n) = node_id n" "node_type (add_tables c n) = node_type n"
  "dataPlatform (add_tables c n) = dataPlatform n"
  by (simp_all add: add_tables_def)

lemma promote_mixed_keeps [simp]:
  "node_id (promote_mixed col n) = node_id n"
  "node_type (promote_mixed col n) = Dataplatform \<longleftrightarrow> node_type n = Dataplatform"
  "dataPlatform (promote_mixed col n) = dataPlatform n"
  by (simp_all add: promote_mixed_def)

lemma collect_distinct_aux:
  "distinct s \<Longrightarrow> distinct (foldl (\<lambda>s r. set_add s (f r)) s rs)"
  by (induction rs arbitrary: s) (auto simp: set_add_def)

lemma distinct_collect_platforms: "distinct (collect_platforms srcs dss)"
  by (simp add: collect_platforms_def collect_distinct_aux)




















section \<open>Applying the highlight to its own output\<close>

lemma process_node_id [simp]: "node_id (process_node d h n) = node_id n"
  by (simp add: process_node_def)

lemma process_link_ends [simp]:
  "link_source (process_link h l) = link_source l"
  "link_target (process_link h l) = link_target l"
  by (simp_all add: process_link_def split: option.splits)

lemma link_joins_process [simp]: "link_joins h k (process_link h' l) = link_joins h k l"
  by (simp add: link_joins_def split: sum.splits)







section \<open>A downstream record meets a source node\<close>

lemma promote_add_Source:
  "node_type n = Source \<Longrightarrow> promote_mixed col (add_tables c n) = mixed_of col c n"
  by (simp add: promote_mixed_def add_tables_def mixed_of_def)

lemma nodeMap_update_ids [simp]:
  "(\<And>n. node_id (f n) = node_id n) \<Longrightarrow> map node_id (nodeMap_update f k ns) = map node_id ns"
  by (induction ns) (auto simp: nodeMap_update_def)

lemma nodeMap_update_dataPlatform:
  "(\<And>n. dataPlatform (f n) = dataPlatform n) \<Longrightarrow>
   map dataPlatform (nodeMap_update f k ns) = map dataPlatform ns"
  by (induction ns) (auto simp: nodeMap_update_def)

lemma nodeMap_update_mem:
  "n \<in> set ns \<Longrightarrow> node_id n = k \<Longrightarrow> f n \<in> set (nodeMap_update f k ns)"
  by (induction ns) (auto simp: nodeMap_update_def)

lemma venn_downstream_hit:
  assumes "n \<in> set (nodes b)" "node_id n = toLowerCase (downstreamAppName r)"
    "node_type n = Source"
  shows "mixed_of (str_or (colorMap ''mixed'') ''#AA46BC'') (downstreamTableCount r) n
           \<in> set (nodes (venn_downstream_step colorMap rnd sec dp b (i, r)))"
    "map node_id (nodes (venn_downstream_step colorMap rnd sec dp b (i, r))) = map node_id (nodes b)"
    "map dataPlatform (nodes (venn_downstream_step colorMap rnd sec dp b (i, r)))
       = map dataPlatform (nodes b)"
proof -
  have h: "nodeMap_has (nodes b) (toLowerCase (downstreamAppName r))"
    using assms(1,2) by (force simp: nodeMap_has_def)
  show "mixed_of (str_or (colorMap ''mixed'') ''#AA46BC'') (downstreamTableCount r) n
           \<in> set (nodes (venn_downstream_step colorMap rnd sec dp b (i, r)))"
    using nodeMap_update_mem[OF assms(1,2),
        of "\<lambda>n. promote_mixed (str_or (colorMap ''mixed'') ''#AA46BC'')
               (add_tables (downstreamTableCount r) n)"] h assms(3)
    by (simp add: venn_downstream_step_def promote_add_Source)
  show "map node_id (nodes (venn_downstream_step colorMap rnd sec dp b (i, r))) = map node_id (nodes b)"
    using h by (simp add: venn_downstream_step_def)
  show "map dataPlatform (nodes (venn_downstream_step colorMap rnd sec dp b (i, r)))
       = map dataPlatform (nodes b)"
    using h by (simp add: venn_downstream_step_def nodeMap_update_dataPlatform)
qed

lemma main_downstream_hit:
  assumes "n \<in> set (nodes g)" "node_id n = toLowerCase (downstreamAppName r)"
    "node_type n = Source"
  shows "mixed_of ''#AA46BC'' (downstreamTableCount r) n
           \<in> set (nodes (main_downstream_step colorMap rm len g (i, r)))"
    "map node_id (nodes (main_downstream_step colorMap rm len g (i, r))) = map node_id (nodes g)"
    "map dataPlatform (nodes (main_downstream_step colorMap rm len g (i, r)))
       = map dataPlatform (nodes g)"
proof -
  have h: "nodeMap_has (nodes g) (toLowerCase (downstreamAppName r))"
    using assms(1,2) by (force simp: nodeMap_has_def)
  show "mixed_of ''#AA46BC'' (downstreamTableCount r) n
           \<in> set (nodes (main_downstream_step colorMap rm len g (i, r)))"
    using nodeMap_update_mem[OF assms(1,2),
        of "\<lambda>n. promote_mixed ''#AA46BC'' (add_tables (downstreamTableCount r) n)"] h assms(3)
    by (simp add: main_downstream_step_def promote_add_Source)
  show "map node_id (nodes (main_downstream_step colorMap rm len g (i, r))) = map node_id (nodes g)"
    using h by (simp add: main_downstream_step_def)
  show "map dataPlatform (nodes (main_downstream_step colorMap rm len g (i, r)))
       = map dataPlatform (nodes g)"
    using h by (simp add: main_downstream_step_def nodeMap_update_dataPlatform)
qed

section \<open>Placement in the Venn layout\<close>












section \<open>Platform-to-platform connections\<close>












































section \<open>Node types and accumulated weights\<close>











































lemma venn_platform_nodes_ids:
  "map node_id (venn_platform_nodes colorMap counts dps) = dps"
  by (simp add: venn_platform_nodes_def venn_regionNode_def Let_def comp_def)













section \<open>The node map and the node list\<close>

text \<open>
  Both builders keep \<open>nodeMap\<close> and the \<open>nodes\<close> array in step: a node is pushed
  only under an id that \<open>nodeMap\<close> does not hold yet, so the ids of the nodes of a built
  graph are pairwise distinct and looking a node up by its id in the list is the lookup in
  \<open>nodeMap\<close>.
\<close>

lemma distinct_push:
  "distinct (map node_id ns) \<Longrightarrow> \<not> nodeMap_has ns (node_id n) \<Longrightarrow>
   distinct (map node_id (ns @ [n]))"
  by (simp add: nodeMap_has_def)

lemma main_platform_nodes_distinct:
  "distinct (map node_id (main_platform_nodes colorMap dps))"
proof -
  have "distinct (map node_id (foldl (main_platform_step colorMap t) ns xs))"
    if "distinct (map node_id ns)" for ns t xs
    using that
  proof (induction xs arbitrary: ns)
    case Nil
    then show ?case by simp
  next
    case (Cons x xs)
    have "distinct (map node_id (main_platform_step colorMap t ns x))"
      using Cons.prems distinct_push[of ns "main_regionNode colorMap t (fst x) (snd x)"]
      by (simp add: main_platform_step_def main_regionNode_def Let_def)
    then show ?case using Cons.IH by simp
  qed
  then show ?thesis by (simp add: main_platform_nodes_def)
qed

lemma main_source_fold_distinct:
  "distinct (map node_id (nodes g)) \<Longrightarrow>
   distinct (map node_id (nodes (foldl (main_source_step colorMap rm len) g xs)))"
proof (induction xs arbitrary: g)
  case Nil
  then show ?case by simp
next
  case (Cons x xs)
  have "distinct (map node_id (nodes (main_source_step colorMap rm len g x)))"
    using Cons.prems
      distinct_push[of "nodes g" "main_source_node colorMap len (fst x) (snd x) rn" for rn]
    by (auto simp: main_source_step_def main_source_node_def Let_def split: option.splits)
  then show ?case using Cons.IH by simp
qed

lemma main_downstream_fold_distinct:
  "distinct (map node_id (nodes g)) \<Longrightarrow>
   distinct (map node_id (nodes (foldl (main_downstream_step colorMap rm len) g xs)))"
proof (induction xs arbitrary: g)
  case Nil
  then show ?case by simp
next
  case (Cons x xs)
  have "distinct (map node_id (nodes (main_downstream_step colorMap rm len g x)))"
    using Cons.prems
      distinct_push[of "nodes g" "main_downstream_node colorMap len (fst x) (snd x) rn" for rn]
    by (auto simp: main_downstream_step_def main_downstream_node_def Let_def
        split: option.splits)
  then show ?case using Cons.IH by simp
qed

lemma getMainGraphData_distinct:
  "distinct (map node_id (nodes (getMainGraphData srcs dss colorMap)))"
  by (simp add: getMainGraphData_def main_entities_def Let_def main_downstream_fold_distinct
      main_source_fold_distinct main_platform_nodes_distinct)

lemma venn_source_platforms_distinct:
  "distinct (map node_id (nodes b)) \<Longrightarrow>
   distinct (map node_id (nodes (foldl (venn_source_platform colorMap rnd rm sm gm) b dps)))"
proof (induction dps arbitrary: b)
  case Nil
  then show ?case by simp
next
  case (Cons dp dps)
  have step: "distinct (map node_id (nodes (foldl (venn_source_step colorMap rnd sec dp) c xs)))"
    if "distinct (map node_id (nodes c))" for c sec xs
    using that
  proof (induction xs arbitrary: c)
    case Nil
    then show ?case by simp
  next
    case (Cons x xs)
    have "distinct (map node_id (nodes (venn_source_step colorMap rnd sec dp c x)))"
      using Cons.prems
        distinct_push[of "nodes c" "venn_source_node colorMap sec dp (fst x) (snd x) (rnd (draws c))"]
      by (simp add: venn_source_step_def venn_source_node_def)
    then show ?case using Cons.IH by simp
  qed
  have "distinct (map node_id (nodes (venn_source_platform colorMap rnd rm sm gm b dp)))"
    using Cons.prems by (simp add: venn_source_platform_def step split: option.splits)
  then show ?case using Cons.IH by simp
qed

lemma venn_downstream_platforms_distinct:
  "distinct (map node_id (nodes b)) \<Longrightarrow>
   distinct (map node_id (nodes (foldl (venn_downstream_platform colorMap rnd rm sm gm) b dps)))"
proof (induction dps arbitrary: b)
  case Nil
  then show ?case by simp
next
  case (Cons dp dps)
  have step: "distinct (map node_id (nodes (foldl (venn_downstream_step colorMap rnd sec dp) c xs)))"
    if "distinct (map node_id (nodes c))" for c sec xs
    using that
  proof (induction xs arbitrary: c)
    case Nil
    then show ?case by simp
  next
    case (Cons x xs)
    have "distinct (map node_id (nodes (venn_downstream_step colorMap rnd sec dp c x)))"
      using Cons.prems
        distinct_push[of "nodes c"
          "venn_downstream_node colorMap sec dp (fst x) (snd x) (rnd (draws c))"]
      by (simp add: venn_downstream_step_def venn_downstream_node_def)
    then show ?case using Cons.IH by simp
  qed
  have "distinct (map node_id (nodes (venn_downstream_platform colorMap rnd rm sm gm b dp)))"
    using Cons.prems by (simp add: venn_downstream_platform_def step split: option.splits)
  then show ?case using Cons.IH by simp
qed

lemma getVennNetworkLayout_distinct:
  assumes "getVennNetworkLayout srcs dss colorMap rnd = Inr g"
  shows "distinct (map node_id (nodes g))"
proof -
  from assms obtain counts where
    n: "nodes g = nodes (venn_entities srcs dss colorMap rnd counts)"
    by (auto elim!: getVennNetworkLayout_InrD)
  have "distinct (map node_id (venn_platform_nodes colorMap counts
          (sort_platforms (collect_platforms srcs dss))))"
    by (simp add: venn_platform_nodes_ids sort_platforms_def distinct_collect_platforms)
  then show ?thesis
    unfolding n venn_entities_def Let_def
    by (intro venn_downstream_platforms_distinct venn_source_platforms_distinct) simp
qed

section \<open>The claims\<close>







text \<open>
  Claim C3 (graph construction never throws on a record with an absent field). On a source
  record without \<open>data_platform\<close> the Venn builder throws: the platform set is collected
  with the default \<open>Unknown\<close>, but the connection count reads
  \<open>entity.data_platform.toLowerCase()\<close> without it.
\<close>

theorem C3_venn_throws:
  "getVennNetworkLayout [source_record None (Some ''App'') (Some 3)] [] colorMap rnd
     = Inl TypeError"
  by (simp add: row_eval venn_eval)




text \<open>
  Claim C5. When a downstream round of either builder finds a node of type source under its
  key, that node becomes mixed, takes the mixed colour and gains the tables, and keeps its
  \<open>dataPlatform\<close>; no node is added. For \<open>svc\<close> on \<open>p1\<close> as source and \<open>svc\<close> on \<open>p2\<close> as
  downstream both builders yield the platform nodes and one mixed node \<open>svc\<close> with platform
  \<open>p1\<close>, and the connections hold one entry, for the key \<open>p1-p2\<close>, with value \<open>1\<close>.
\<close>

theorem C5_first_write_wins:
  "(n \<in> set (nodes b) \<and> node_id n = toLowerCase (downstreamAppName r) \<and> node_type n = Source
      \<longrightarrow> mixed_of (str_or (colorMap ''mixed'') ''#AA46BC'') (downstreamTableCount r) n
             \<in> set (nodes (venn_downstream_step colorMap rnd sec dp b (i, r)))
        \<and> map node_id (nodes (venn_downstream_step colorMap rnd sec dp b (i, r)))
             = map node_id (nodes b)
        \<and> map dataPlatform (nodes (venn_downstream_step colorMap rnd sec dp b (i, r)))
             = map dataPlatform (nodes b))
   \<and> (m \<in> set (nodes g) \<and> node_id m = toLowerCase (downstreamAppName r) \<and> node_type m = Source
      \<longrightarrow> mixed_of ''#AA46BC'' (downstreamTableCount r) m
             \<in> set (nodes (main_downstream_step colorMap rm len g (i, r)))
        \<and> map node_id (nodes (main_downstream_step colorMap rm len g (i, r)))
             = map node_id (nodes g)
        \<and> map dataPlatform (nodes (main_downstream_step colorMap rm len g (i, r)))
             = map dataPlatform (nodes g))
   \<and> (\<exists>v. getVennNetworkLayout [svc_source] [svc_downstream] colorMap rnd = Inr v
        \<and> map (\<lambda>n. (node_id n, node_type n, dataPlatform n)) (nodes v)
            = [(''p1'', Dataplatform, None), (''p2'', Dataplatform, None),
               (''svc'', Mixed, Some ''p1'')])
   \<and> venn_connections [svc_source] [svc_downstream]
        = Inr [(''p1-p2'', \<lparr>conn_source = ''p1'', conn_target = ''p2'', conn_value = 1\<rparr>)]
   \<and> map (\<lambda>n. (node_id n, node_type n, dataPlatform n))
        (nodes (getMainGraphData [svc_source] [svc_downstream] colorMap))
        = [(''p1'', Dataplatform, None), (''p2'', Dataplatform, None),
           (''svc'', Mixed, Some ''p1'')]
   \<and> map (\<lambda>kc. (fst kc, link_source (snd kc), link_target (snd kc), link_value (snd kc)))
        (main_connections (sort_sources [svc_source]) (sort_downstreams [svc_downstream]))
        = [(''p1-p2'', NodeId ''p1'', NodeId ''p2'', 1)]"
proof -
  have 1: "\<exists>v. getVennNetworkLayout [svc_source] [svc_downstream] colorMap rnd = Inr v
        \<and> map (\<lambda>n. (node_id n, node_type n, dataPlatform n)) (nodes v)
            = [(''p1'', Dataplatform, None), (''p2'', Dataplatform, None),
               (''svc'', Mixed, Some ''p1'')]"
    by (simp add: svc_source_def svc_downstream_def row_eval venn_eval str_eval)
  have 2: "venn_connections [svc_source] [svc_downstream]
        = Inr [(''p1-p2'', \<lparr>conn_source = ''p1'', conn_target = ''p2'', conn_value = 1\<rparr>)]"
    by (simp add: svc_source_def svc_downstream_def row_eval venn_eval str_eval)
  have 3: "map (\<lambda>n. (node_id n, node_type n, dataPlatform n))
        (nodes (getMainGraphData [svc_source] [svc_downstream] colorMap))
        = [(''p1'', Dataplatform, None), (''p2'', Dataplatform, None),
           (''svc'', Mixed, Some ''p1'')]"
    by (simp add: svc_source_def svc_downstream_def row_eval main_eval str_eval)
  have 4: "map (\<lambda>kc. (fst kc, link_source (snd kc), link_target (snd kc), link_value (snd kc)))
        (main_connections (sort_sources [svc_source]) (sort_downstreams [svc_downstream]))
        = [(''p1-p2'', NodeId ''p1'', NodeId ''p2'', 1)]"
    by (simp add: svc_source_def svc_downstream_def row_eval main_eval str_eval)
  from 1 2 3 4 venn_downstream_hit[of n b r colorMap rnd sec dp i]
    main_downstream_hit[of m g r colorMap rm len i]
  show ?thesis by blast
qed

text \<open>The theorem on a build that holds the source node \<open>svc\<close> of platform \<open>p1\<close>.\<close>

theorem C5_first_write_wins_witness:
  "svc_node \<in> set (nodes \<lparr>nodes = [svc_node], links = [], draws = 0\<rparr>)
   \<and> node_id svc_node = toLowerCase (downstreamAppName svc_downstream)
   \<and> node_type svc_node = Source
   \<and> map (\<lambda>n. (node_id n, node_type n, dataPlatform n))
       (nodes (venn_downstream_step Map.empty (\<lambda>k. 0) \<lparr>startAngle = 0, endAngle = 1\<rparr> ''p2''
          \<lparr>nodes = [svc_node], links = [], draws = 0\<rparr> (0, svc_downstream)))
       = [(''svc'', Mixed, Some ''p1'')]
   \<and> mixed_of ''#AA46BC'' 0 svc_node
       \<in> set (nodes (main_downstream_step Map.empty Map.empty 1
                \<lparr>nodes = [svc_node], links = []\<rparr> (0, svc_downstream)))"
proof -
  have h: "svc_node \<in> set (nodes \<lparr>nodes = [svc_node], links = [], draws = 0\<rparr>)"
    "svc_node \<in> set (nodes \<lparr>nodes = [svc_node], links = []\<rparr>)"
     "node_id svc_node = toLowerCase (downstreamAppName svc_downstream)"
     "node_type svc_node = Source"
    by (simp_all add: svc_node_def svc_source_def svc_downstream_def venn_source_node_def
         row_eval str_eval)
  have c: "downstreamTableCount svc_downstream = 0"
    by (simp add: svc_downstream_def row_eval str_eval)
  have e: "map (\<lambda>n. (node_id n, node_type n, dataPlatform n))
       (nodes (venn_downstream_step Map.empty (\<lambda>k. 0) \<lparr>startAngle = 0, endAngle = 1\<rparr> ''p2''
          \<lparr>nodes = [svc_node], links = [], draws = 0\<rparr> (0, svc_downstream)))
       = [(''svc'', Mixed, Some ''p1'')]"
    by (simp add: svc_node_def svc_source_def svc_downstream_def venn_source_node_def
         venn_downstream_step_def row_eval str_eval)
  show ?thesis
    using C5_first_write_wins[of svc_node "\<lparr>nodes = [svc_node], links = [], draws = 0\<rparr>"
        svc_downstream Map.empty "\<lambda>k. 0" "\<lparr>startAngle = 0, endAngle = 1\<rparr>" "''p2''" 0
        svc_node "\<lparr>nodes = [svc_node], links = []\<rparr>" Map.empty 1] h c e
    by simp
qed




text \<open>
  Claim C7. The symbol-size function is non-decreasing in the weight and its result lies in
  \<open>[20, 100]\<close> for every weight, zero and negative ones included; and in the graph of
  either builder every platform node has the fixed symbol size \<open>120\<close>, whatever happened to
  its weight.
\<close>

theorem C7_symbol_size:
  "(v \<le> w \<longrightarrow> calculateSymbolSize v \<le> calculateSymbolSize w)
   \<and> 20 \<le> calculateSymbolSize v \<and> calculateSymbolSize v \<le> 100
   \<and> (\<forall>n\<in>set (nodes (getMainGraphData srcs dss colorMap)).
         node_type n = Dataplatform \<longrightarrow> symbolSize n = 120)
   \<and> (getVennNetworkLayout srcs dss colorMap rnd = Inr g \<longrightarrow>
       (\<forall>n\<in>set (nodes g). node_type n = Dataplatform \<longrightarrow> symbolSize n = 120))"
proof -
  let ?Q = "\<lambda>n. node_type n = Dataplatform \<longrightarrow> symbolSize n = 120"
  have m: "list_all ?Q (nodes (getMainGraphData srcs dss colorMap))"
    by (rule getMainGraphData_all)
       (simp_all add: platform_size_keep main_regionNode_def main_source_node_def
          main_downstream_node_def Let_def)
  have v: "list_all ?Q (nodes (venn_entities srcs dss colorMap rnd counts))" for counts
    by (rule venn_entities_all)
       (simp_all add: platform_size_keep venn_regionNode_def venn_source_node_def
          venn_downstream_node_def Let_def)
  have v': "list_all ?Q (nodes g)" if "getVennNetworkLayout srcs dss colorMap rnd = Inr g"
    using that v by (auto elim!: getVennNetworkLayout_InrD)
  show ?thesis
    using m v' css_mono[of v w] css_bounds[of v] by (simp add: list_all_iff)
qed

text \<open>The theorem at the weights \<open>1 \<le> 2\<close> and at a one-record input, where both builders
  return a graph with a platform node.\<close>

theorem C7_symbol_size_witness:
  "(1::real) \<le> 2 \<and> calculateSymbolSize 1 \<le> calculateSymbolSize 2
   \<and> (\<exists>n. n \<in> set (nodes (getMainGraphData
            [source_record (Some ''data lake'') (Some ''CRM'') (Some 10)] [] Map.empty))
         \<and> node_type n = Dataplatform \<and> symbolSize n = 120)
   \<and> (\<exists>g n. getVennNetworkLayout
            [source_record (Some ''data lake'') (Some ''CRM'') (Some 10)] [] Map.empty (\<lambda>k. 0) = Inr g
         \<and> n \<in> set (nodes g) \<and> node_type n = Dataplatform \<and> symbolSize n = 120)"
proof -
  let ?src = "[source_record (Some ''data lake'') (Some ''CRM'') (Some 10)]"
  have "map node_type (nodes (getMainGraphData ?src [] Map.empty)) = [Dataplatform, Source]"
    by (simp add: row_eval main_eval str_eval)
  then have "Dataplatform \<in> set (map node_type (nodes (getMainGraphData ?src [] Map.empty)))"
    by simp
  then obtain m where m: "m \<in> set (nodes (getMainGraphData ?src [] Map.empty))"
    "node_type m = Dataplatform" by auto
  have "\<exists>g. getVennNetworkLayout ?src [] Map.empty (\<lambda>k. 0) = Inr g
     \<and> map node_type (nodes g) = [Dataplatform, Source]"
    by (simp add: row_eval venn_eval str_eval)
  then obtain g where g: "getVennNetworkLayout ?src [] Map.empty (\<lambda>k. 0) = Inr g"
    and "Dataplatform \<in> set (map node_type (nodes g))" by auto
  then obtain n where n: "n \<in> set (nodes g)" "node_type n = Dataplatform" by auto
  show ?thesis
    using C7_symbol_size[of 1 2 ?src "[]" Map.empty "\<lambda>k. 0" g] m g n by auto
qed






text \<open>
  Claim C10. For some inputs \<open>getMainGraphData\<close> returns a link whose ends are no nodes: a
  source record without \<open>data_platform\<close> looks its platform up under \<open>Unknown\<close>, the only
  platform node is \<open>unknown\<close>, so no entity node is created, yet the link from \<open>app\<close> to
  \<open>Unknown\<close> is pushed.
\<close>

theorem C10_dangling_link:
  "\<exists>l. l \<in> set (links (getMainGraphData [source_record None (Some ''App'') (Some 3)] [] colorMap))
     \<and> link_source l = NodeId ''app'' \<and> link_target l = NodeId ''Unknown''
     \<and> map node_id (nodes (getMainGraphData [source_record None (Some ''App'') (Some 3)] []
           colorMap)) = [''unknown'']
     \<and> ''app'' \<notin> set (map node_id (nodes (getMainGraphData
           [source_record None (Some ''App'') (Some 3)] [] colorMap)))
     \<and> ''Unknown'' \<notin> set (map node_id (nodes (getMainGraphData
           [source_record None (Some ''App'') (Some 3)] [] colorMap)))"
  by (simp add: row_eval main_eval str_eval)

end
